theory Spec2Isabelle
  imports Complex_Main
begin

section \<open>Python values\<close>

text \<open>
  The vendored client \<^verbatim>\<open>proxmox_mcp/vendor/proxmoxia/__init__.py\<close> is embedded
  function by function. A Python \<^verbatim>\<open>str\<close> is modelled by its UTF-8 bytes, which is
  what \<^verbatim>\<open>urllib.parse.quote\<close> works on; concatenation and the test
  \<^verbatim>\<open>"@" in username\<close> commute with that encoding.
\<close>

type_synonym addr = nat

text \<open>Decoded JSON and keyword-argument values. A dict keeps its insertion order.\<close>

datatype pyval =
    PNone
  | PBool bool
  | PInt int
  | PFloat rat
  | PStr string
  | PList "pyval list"
  | PDict "(string \<times> pyval) list"

text \<open>Python truthiness, as used by \<^verbatim>\<open>if not data\<close> and \<^verbatim>\<open>kwargs or None\<close>.\<close>

fun truthy :: "pyval \<Rightarrow> bool" where
  "truthy PNone = False"
| "truthy (PBool b) = b"
| "truthy (PInt i) = (i \<noteq> 0)"
| "truthy (PFloat r) = (r \<noteq> 0)"
| "truthy (PStr s) = (s \<noteq> [])"
| "truthy (PList xs) = (xs \<noteq> [])"
| "truthy (PDict d) = (d \<noteq> [])"

text \<open>\<^verbatim>\<open>d[k] = v\<close> on an insertion-ordered dict: overwrite in place, else append.\<close>

fun dict_set :: "'k \<Rightarrow> 'v \<Rightarrow> ('k \<times> 'v) list \<Rightarrow> ('k \<times> 'v) list" where
  "dict_set k v [] = [(k, v)]"
| "dict_set k v (p # ps) = (if fst p = k then (k, v) # ps else p # dict_set k v ps)"

text \<open>The exceptions that can leave the module.\<close>

datatype error =
    ProxmoxError
  | ProxmoxAuthError
  | ProxmoxConnectionError
  | PyValueError
  | PyAttributeError
  | PyTypeError
  | PyKeyError

section \<open>Strings: \<^verbatim>\<open>str(int)\<close>, \<^verbatim>\<open>"/".join\<close>, \<^verbatim>\<open>quote\<close>\<close>

definition digit_char :: "nat \<Rightarrow> char" where
  "digit_char d = ''0123456789'' ! (d mod 10)"

function str_nat :: "nat \<Rightarrow> string" where
  "str_nat n = (if n < 10 then [digit_char n] else str_nat (n div 10) @ [digit_char (n mod 10)])"
  by pat_completeness auto
termination
  by (relation "measure (\<lambda>n. n)") auto

definition str_int :: "int \<Rightarrow> string" where
  "str_int i = (if i < 0 then ''-'' @ str_nat (nat (- i)) else str_nat (nat i))"

section \<open>Objects and the world\<close>

text \<open>\<^verbatim>\<open>ProxmoxAuthToken\<close>: a dataclass of three optional strings.\<close>

record ProxmoxAuthToken =
  ticket :: "string option"
  csrf :: "string option"
  token_header :: "string option"

datatype transport_class = ConnectorAPI | Connector | Proxmox | Node

text \<open>
  The fields that \<^verbatim>\<open>ConnectorAPI.__init__\<close>, \<^verbatim>\<open>Proxmox.__init__\<close> and
  \<^verbatim>\<open>Node.__init__\<close> assign. The \<^verbatim>\<open>requests.Session\<close> is outside the module; every
  call made on a session is recorded on the wire of the world.
\<close>

record transport =
  cls :: transport_class
  host :: string
  port :: int
  verify_ssl :: bool
  baseurl :: string
  auth :: "ProxmoxAuthToken option"
  conn :: "addr option"
  node :: "string option"

datatype attr_class =
  AttrMethod | AttrGetMethod | AttrPostMethod | AttrPutMethod | AttrDeleteMethod

record attr =
  acls :: attr_class
  parent :: addr
  method_name :: string

datatype obj = Transport transport | Attr attr

text \<open>What \<^verbatim>\<open>session.request\<close> / \<^verbatim>\<open>session.post\<close> is called with.\<close>

record request =
  http_method :: string
  url :: string
  params :: "(string \<times> pyval) list option"
  data :: "(string \<times> pyval) list option"
  headers :: "(string \<times> string) list option"
  verify :: bool
  timeout :: nat

text \<open>
  The world: the objects allocated so far (an address is an index; objects are only ever
  appended or overwritten in place) and the requests sent so far.
\<close>

record world =
  heap :: "obj list"
  wire :: "request list"

type_synonym 'a py = "world \<Rightarrow> (error + 'a) \<times> world"

definition deref :: "world \<Rightarrow> addr \<Rightarrow> obj option" where
  "deref w a = (if a < length (heap w) then Some (heap w ! a) else None)"

definition alloc :: "obj \<Rightarrow> world \<Rightarrow> addr \<times> world" where
  "alloc ob w = (length (heap w), w\<lparr>heap := heap w @ [ob]\<rparr>)"

definition store :: "addr \<Rightarrow> obj \<Rightarrow> world \<Rightarrow> world" where
  "store a ob w = w\<lparr>heap := (heap w)[a := ob]\<rparr>"

section \<open>\<^verbatim>\<open>ConnectorAPI.__init__\<close> and \<^verbatim>\<open>Connector\<close>\<close>

definition ConnectorAPI_fields :: "transport_class \<Rightarrow> string \<Rightarrow> int \<Rightarrow> bool \<Rightarrow> transport" where
  "ConnectorAPI_fields c hostname prt vfy =
     \<lparr>cls = c, host = hostname, port = prt, verify_ssl = vfy,
      baseurl = ''https://'' @ hostname @ '':'' @ str_int prt @ ''/api2/json'',
      auth = None, conn = None, node = None\<rparr>"

definition Connector_new :: "string \<Rightarrow> int \<Rightarrow> bool \<Rightarrow> world \<Rightarrow> addr \<times> world" where
  "Connector_new hostname prt vfy = alloc (Transport (ConnectorAPI_fields Connector hostname prt vfy))"

text \<open>
  The outcome of a call that may also fall outside the embedding (\<open>Unmodelled\<close>).
\<close>

datatype 'a outcome = Raise error | Unmodelled | Return 'a

text \<open>
  \<^verbatim>\<open>Connector.use_api_token\<close>, as the call
  \<^verbatim>\<open>self.use_api_token(username, token_name, token_value)\<close> reaches it: on a
  \<^verbatim>\<open>Connector\<close>. A bare \<^verbatim>\<open>ConnectorAPI\<close> has no such attribute. On a \<^verbatim>\<open>Proxmox\<close>, a
  \<^verbatim>\<open>Node\<close> or a chain object the name is answered by \<^verbatim>\<open>__getattr__\<close>: the call is a
  chain step and not this method, and this function leaves it \<open>Unmodelled\<close>, as it
  does an address that holds no object.
\<close>

definition use_api_token :: "addr \<Rightarrow> string \<Rightarrow> string \<Rightarrow> string
    \<Rightarrow> world \<Rightarrow> ProxmoxAuthToken outcome \<times> world" where
  "use_api_token self username token_name token_value w =
     (case deref w self of
        Some (Transport c) \<Rightarrow>
          if cls c = Connector then
            (if CHR ''@'' \<notin> set username then (Raise ProxmoxAuthError, w)
             else
               let header = ''PVEAPIToken='' @ username @ ''!'' @ token_name @ ''='' @ token_value;
                   token = \<lparr>ticket = None, csrf = None, token_header = Some header\<rparr>
               in (Return token, store self (Transport (c\<lparr>auth := Some token\<rparr>)) w))
          else if cls c = ConnectorAPI then (Raise PyAttributeError, w)
          else (Unmodelled, w)
      | _ \<Rightarrow> (Unmodelled, w))"

section \<open>The HTTP library\<close>

text \<open>
  \<^verbatim>\<open>requests\<close> is not part of the repository. Of a call on the session the model keeps
  what the module can observe: either an exception, or a response with its
  \<^verbatim>\<open>status_code\<close> and the outcome of \<^verbatim>\<open>response.json()\<close> (\<open>None\<close> when the body is
  not JSON, which raises a \<^verbatim>\<open>ValueError\<close>). \<open>HTTPError\<close> carries the status of the
  response attached to it, if any; \<open>RequestException\<close> stands for every other
  \<^verbatim>\<open>requests.RequestException\<close> (DNS failure, refused connection, timeout).
\<close>

datatype exc = HTTPError "int option" | RequestException

datatype reply = Raises exc | Response int "pyval option"

type_synonym server = "request \<Rightarrow> reply"

text \<open>
  \<^verbatim>\<open>Response.raise_for_status\<close> of \<^verbatim>\<open>requests\<close> raises \<^verbatim>\<open>HTTPError\<close> for a client
  error (\<^verbatim>\<open>400 <= status_code < 500\<close>) and for a server error
  (\<^verbatim>\<open>500 <= status_code < 600\<close>), and for no other status.
\<close>

definition raise_for_status :: "int \<Rightarrow> bool" where
  "raise_for_status s = ((400 \<le> s \<and> s < 500) \<or> (500 \<le> s \<and> s < 600))"

text \<open>The body of both \<^verbatim>\<open>try\<close> blocks: the call on the session, then \<^verbatim>\<open>raise_for_status\<close>.\<close>

definition send :: "server \<Rightarrow> request \<Rightarrow> exc + (int \<times> pyval option)" where
  "send srv req =
     (case srv req of
        Raises e \<Rightarrow> Inl e
      | Response s body \<Rightarrow> if raise_for_status s then Inl (HTTPError (Some s)) else Inr (s, body))"

section \<open>\<^verbatim>\<open>ProxmoxAuthToken.apply\<close> and \<^verbatim>\<open>ConnectorAPI\<close>\<close>

fun set_if :: "string \<Rightarrow> (string \<Rightarrow> string) \<Rightarrow> string option \<Rightarrow> (string \<times> string) list
    \<Rightarrow> (string \<times> string) list" where
  "set_if k f None hs = hs"
| "set_if k f (Some v) hs = (if v \<noteq> [] then dict_set k (f v) hs else hs)"

definition ProxmoxAuthToken_apply :: "ProxmoxAuthToken \<Rightarrow> (string \<times> string) list
    \<Rightarrow> (string \<times> string) list" where
  "ProxmoxAuthToken_apply tok hs =
     set_if ''CSRFPreventionToken'' (\<lambda>v. v) (csrf tok)
       (set_if ''Cookie'' (\<lambda>v. ''PVEAuthCookie='' @ v) (ticket tok)
         (set_if ''Authorization'' (\<lambda>v. v) (token_header tok) hs))"

text \<open>The arguments \<^verbatim>\<open>_request\<close> passes to \<^verbatim>\<open>session.request\<close>.\<close>

definition build_request :: "transport \<Rightarrow> string \<Rightarrow> string \<Rightarrow> (string \<times> pyval) list option
    \<Rightarrow> request" where
  "build_request t meth filter_path prms =
     \<lparr>http_method = meth,
      url = baseurl t @ ''/'' @ filter_path,
      params = (if meth = ''GET'' then prms else None),
      data = (if meth \<noteq> ''GET'' then prms else None),
      headers = Some (case auth t of
                        None \<Rightarrow> [(''Accept'', ''application/json'')]
                      | Some tok \<Rightarrow> ProxmoxAuthToken_apply tok [(''Accept'', ''application/json'')]),
      verify = verify_ssl t,
      timeout = 30\<rparr>"

text \<open>\<^verbatim>\<open>payload.get("data")\<close>: only a dict has \<^verbatim>\<open>get\<close>.\<close>

fun payload_get_data :: "pyval \<Rightarrow> error + pyval" where
  "payload_get_data (PDict d) = Inr (case map_of d ''data'' of None \<Rightarrow> PNone | Some v \<Rightarrow> v)"
| "payload_get_data _ = Inl PyAttributeError"

text \<open>The two \<^verbatim>\<open>except\<close> clauses of \<^verbatim>\<open>_request\<close>.\<close>

fun request_except :: "exc \<Rightarrow> error" where
  "request_except (HTTPError (Some s)) =
     (if s = 401 \<or> s = 403 then ProxmoxAuthError else ProxmoxConnectionError)"
| "request_except (HTTPError None) = ProxmoxConnectionError"
| "request_except RequestException = ProxmoxConnectionError"

definition ConnectorAPI_request :: "server \<Rightarrow> addr \<Rightarrow> string \<Rightarrow> string
    \<Rightarrow> (string \<times> pyval) list option \<Rightarrow> pyval py" where
  "ConnectorAPI_request srv self meth filter_path prms w =
     (case deref w self of
        Some (Transport t) \<Rightarrow>
          let req = build_request t meth filter_path prms;
              w' = w\<lparr>wire := wire w @ [req]\<rparr>
          in (case send srv req of
                Inl e \<Rightarrow> (Inl (request_except e), w')
              | Inr (s, None) \<Rightarrow> (Inl ProxmoxError, w')
              | Inr (s, Some payload) \<Rightarrow> (payload_get_data payload, w'))
      | _ \<Rightarrow> (Inl PyAttributeError, w))"

text \<open>\<^verbatim>\<open>params or {}\<close> and \<^verbatim>\<open>kwargs or None\<close>.\<close>

fun or_empty :: "(string \<times> pyval) list option \<Rightarrow> (string \<times> pyval) list" where
  "or_empty None = []"
| "or_empty (Some d) = (if d \<noteq> [] then d else [])"

definition or_None :: "(string \<times> pyval) list \<Rightarrow> (string \<times> pyval) list option" where
  "or_None kwargs = (if kwargs \<noteq> [] then Some kwargs else None)"

definition ConnectorAPI_get :: "server \<Rightarrow> addr \<Rightarrow> string \<Rightarrow> (string \<times> pyval) list option
    \<Rightarrow> pyval py" where
  "ConnectorAPI_get srv self filter_path arguments =
     ConnectorAPI_request srv self ''GET'' filter_path arguments"

definition ConnectorAPI_post :: "server \<Rightarrow> addr \<Rightarrow> string \<Rightarrow> (string \<times> pyval) list option
    \<Rightarrow> pyval py" where
  "ConnectorAPI_post srv self filter_path prms =
     ConnectorAPI_request srv self ''POST'' filter_path (Some (or_empty prms))"

definition ConnectorAPI_put :: "server \<Rightarrow> addr \<Rightarrow> string \<Rightarrow> (string \<times> pyval) list option
    \<Rightarrow> pyval py" where
  "ConnectorAPI_put srv self filter_path prms =
     ConnectorAPI_request srv self ''PUT'' filter_path (Some (or_empty prms))"

definition ConnectorAPI_delete :: "server \<Rightarrow> addr \<Rightarrow> string \<Rightarrow> (string \<times> pyval) list option
    \<Rightarrow> pyval py" where
  "ConnectorAPI_delete srv self filter_path prms =
     ConnectorAPI_request srv self ''DELETE'' filter_path (Some (or_empty prms))"

section \<open>\<^verbatim>\<open>Connector.get_auth_token\<close>\<close>

text \<open>
  \<^verbatim>\<open>data[key]\<close> for a truthy \<^verbatim>\<open>data\<close>: a missing key of a dict is a \<^verbatim>\<open>KeyError\<close>,
  and no other JSON value can be subscripted by a string. The dataclass declares its
  fields as strings; a ticket or CSRF token of another JSON type is outside the
  embedding and is reported as \<open>Unmodelled\<close>.
\<close>

fun subscript :: "pyval \<Rightarrow> string \<Rightarrow> string outcome" where
  "subscript (PDict d) k =
     (case map_of d k of
        None \<Rightarrow> Raise PyKeyError
      | Some (PStr s) \<Rightarrow> Return s
      | Some _ \<Rightarrow> Unmodelled)"
| "subscript _ k = Raise PyTypeError"

text \<open>
  \<^verbatim>\<open>Connector.get_auth_token\<close>, reached on a \<^verbatim>\<open>Connector\<close> only: the other
  receivers are treated as in \<open>use_api_token\<close>.
\<close>

definition get_auth_token :: "server \<Rightarrow> addr \<Rightarrow> string \<Rightarrow> string
    \<Rightarrow> world \<Rightarrow> ProxmoxAuthToken outcome \<times> world" where
  "get_auth_token srv self username password w =
     (case deref w self of
        Some (Transport c) \<Rightarrow>
          if cls c = ConnectorAPI then (Raise PyAttributeError, w)
          else if cls c \<noteq> Connector then (Unmodelled, w)
          else
            let req = \<lparr>http_method = ''POST'',
                       url = baseurl c @ ''/access/ticket'',
                       params = None,
                       data = Some [(''username'', PStr username), (''password'', PStr password)],
                       headers = None,
                       verify = verify_ssl c,
                       timeout = 30\<rparr>;
                w' = w\<lparr>wire := wire w @ [req]\<rparr>
            in (case send srv req of
                  Inl (HTTPError r) \<Rightarrow> (Raise ProxmoxAuthError, w')
                | Inl RequestException \<Rightarrow> (Raise ProxmoxConnectionError, w')
                | Inr (s, None) \<Rightarrow> (Raise PyValueError, w')
                | Inr (s, Some payload) \<Rightarrow>
                    (case payload_get_data payload of
                       Inl e \<Rightarrow> (Raise e, w')
                     | Inr d \<Rightarrow>
                         if \<not> truthy d then (Raise ProxmoxAuthError, w')
                         else (case subscript d ''ticket'' of
                                 Raise e \<Rightarrow> (Raise e, w')
                               | Unmodelled \<Rightarrow> (Unmodelled, w')
                               | Return t \<Rightarrow>
                                   (case subscript d ''CSRFPreventionToken'' of
                                      Raise e \<Rightarrow> (Raise e, w')
                                    | Unmodelled \<Rightarrow> (Unmodelled, w')
                                    | Return cs \<Rightarrow>
                                        let token = \<lparr>ticket = Some t, csrf = Some cs,
                                                     token_header = None\<rparr>
                                        in (Return token,
                                            store self (Transport (c\<lparr>auth := Some token\<rparr>)) w')))))
      | _ \<Rightarrow> (Unmodelled, w))"

section \<open>\<^verbatim>\<open>Proxmox\<close>, \<^verbatim>\<open>Node\<close> and the attribute chain\<close>

text \<open>
  \<^verbatim>\<open>urllib.parse.quote\<close> with its default \<^verbatim>\<open>safe="/"\<close>: letters, digits and
  \<^verbatim>\<open>_.-~\<close> are never quoted, \<^verbatim>\<open>/\<close> is safe, and every other byte becomes \<^verbatim>\<open>%XX\<close>
  in upper-case hexadecimal.
\<close>

definition always_safe :: string where
  "always_safe = ''ABCDEFGHIJKLMNOPQRSTUVWXYZabcdefghijklmnopqrstuvwxyz0123456789_.-~''"

definition hex_digit :: "nat \<Rightarrow> char" where
  "hex_digit d = ''0123456789ABCDEF'' ! (d mod 16)"

definition quote_char :: "char \<Rightarrow> string" where
  "quote_char c =
     (if c \<in> set always_safe \<or> c = CHR ''/'' then [c]
      else [CHR ''%'', hex_digit (of_char c div 16), hex_digit (of_char c mod 16)])"

definition quote :: "string \<Rightarrow> string" where
  "quote s = concat (map quote_char s)"

text \<open>\<^verbatim>\<open>sep.join(xs)\<close>.\<close>

fun join :: "string \<Rightarrow> string list \<Rightarrow> string" where
  "join sep [] = []"
| "join sep [x] = x"
| "join sep (x # y # ys) = x @ sep @ join sep (y # ys)"

text \<open>
  The positional arguments of a chain call, with their \<^verbatim>\<open>str()\<close>: strings, integers,
  booleans and \<^verbatim>\<open>None\<close>.
\<close>

datatype arg = ArgStr string | ArgInt int | ArgBool bool | ArgNone

fun str :: "arg \<Rightarrow> string" where
  "str (ArgStr s) = s"
| "str (ArgInt i) = str_int i"
| "str (ArgBool b) = (if b then ''True'' else ''False'')"
| "str ArgNone = ''None''"

text \<open>
  \<^verbatim>\<open>Proxmox.__init__\<close> copies the connection data of \<^verbatim>\<open>conn\<close> and keeps its token;
  \<^verbatim>\<open>Node.__init__\<close> then extends the base URL with the node as it was given.
\<close>

definition Proxmox_fields :: "transport_class \<Rightarrow> addr \<Rightarrow> transport \<Rightarrow> transport" where
  "Proxmox_fields k c ct =
     (ConnectorAPI_fields k (host ct) (port ct) (verify_ssl ct))\<lparr>auth := auth ct, conn := Some c\<rparr>"




text \<open>
  The \<^verbatim>\<open>__getattr__\<close> methods. Python calls them for a name that ordinary lookup does
  not find; \<^verbatim>\<open>AttrMethod(...)\<close> allocates a new object and assigns its two fields.
\<close>

definition new_attr :: "attr_class \<Rightarrow> addr \<Rightarrow> string \<Rightarrow> world \<Rightarrow> addr \<times> world" where
  "new_attr k p name = alloc (Attr \<lparr>acls = k, parent = p, method_name = name\<rparr>)"

definition Proxmox_getattr :: "addr \<Rightarrow> string \<Rightarrow> addr py" where
  "Proxmox_getattr self key w =
     (case deref w self of
        Some (Transport t) \<Rightarrow>
          if cls t = Proxmox \<or> cls t = Node
          then (case new_attr AttrMethod self key w of (a, w') \<Rightarrow> (Inr a, w'))
          else (Inl PyAttributeError, w)
      | _ \<Rightarrow> (Inl PyAttributeError, w))"

definition AttrMethod_getattr :: "addr \<Rightarrow> string \<Rightarrow> addr py" where
  "AttrMethod_getattr self key w =
     (case deref w self of
        Some (Attr m) \<Rightarrow>
          let encoded = quote key;
              (a, w') =
                (if encoded = ''post'' then new_attr AttrPostMethod (parent m) (method_name m) w
                 else if encoded = ''put'' then new_attr AttrPutMethod (parent m) (method_name m) w
                 else if encoded = ''delete'' then new_attr AttrDeleteMethod (parent m) (method_name m) w
                 else if encoded = ''get'' then new_attr AttrGetMethod (parent m) (method_name m) w
                 else new_attr AttrMethod (parent m) (join ''/'' [method_name m, encoded]) w)
          in (Inr a, w')
      | _ \<Rightarrow> (Inl PyAttributeError, w))"

text \<open>
  What an attribute access or a call evaluates to: an object of the heap (a chain object,
  or the connector behind \<^verbatim>\<open>conn\<close> and the transport behind \<^verbatim>\<open>parent\<close>); a plain
  value (the data of a response, or a string, integer or boolean field); a native object
  that is neither, named by its attribute (a bound method, the session, the stored token);
  or the attribute behind a special name \<^verbatim>\<open>__x__\<close>, left uninterpreted.
\<close>

datatype res = Obj addr | Data pyval | Native string | Special string

definition fetched :: "(error + pyval) \<times> world \<Rightarrow> (error + res) \<times> world" where
  "fetched r = (case r of (Inl e, w') \<Rightarrow> (Inl e, w') | (Inr v, w') \<Rightarrow> (Inr (Data v), w'))"

text \<open>\<^verbatim>\<open>AttrMethod.__call__(self, *args, **kwargs)\<close>.\<close>

definition AttrMethod_call :: "server \<Rightarrow> addr \<Rightarrow> arg list \<Rightarrow> (string \<times> pyval) list \<Rightarrow> res py" where
  "AttrMethod_call srv self args kwargs w =
     (case deref w self of
        Some (Attr m) \<Rightarrow>
          if args \<noteq> [] then
            (let segments = [method_name m] @ map (\<lambda>a. quote (str a)) args
             in case new_attr AttrMethod (parent m) (join ''/'' segments) w of
                  (a, w') \<Rightarrow> (Inr (Obj a), w'))
          else fetched (ConnectorAPI_get srv (parent m) (method_name m) (or_None kwargs) w)
      | _ \<Rightarrow> (Inl PyAttributeError, w))"

text \<open>
  The four subclasses override \<^verbatim>\<open>__call__(self, **kwargs)\<close>: a positional argument is
  a \<^verbatim>\<open>TypeError\<close>.
\<close>

definition AttrVerb_call :: "(server \<Rightarrow> addr \<Rightarrow> string \<Rightarrow> (string \<times> pyval) list option \<Rightarrow> pyval py)
    \<Rightarrow> server \<Rightarrow> addr \<Rightarrow> arg list \<Rightarrow> (string \<times> pyval) list \<Rightarrow> res py" where
  "AttrVerb_call verb srv self args kwargs w =
     (case deref w self of
        Some (Attr m) \<Rightarrow>
          if args \<noteq> [] then (Inl PyTypeError, w)
          else fetched (verb srv (parent m) (method_name m) (or_None kwargs) w)
      | _ \<Rightarrow> (Inl PyAttributeError, w))"

definition AttrGetMethod_call :: "server \<Rightarrow> addr \<Rightarrow> arg list \<Rightarrow> (string \<times> pyval) list \<Rightarrow> res py" where
  "AttrGetMethod_call = AttrVerb_call ConnectorAPI_get"

definition AttrPostMethod_call :: "server \<Rightarrow> addr \<Rightarrow> arg list \<Rightarrow> (string \<times> pyval) list \<Rightarrow> res py" where
  "AttrPostMethod_call = AttrVerb_call ConnectorAPI_post"

definition AttrPutMethod_call :: "server \<Rightarrow> addr \<Rightarrow> arg list \<Rightarrow> (string \<times> pyval) list \<Rightarrow> res py" where
  "AttrPutMethod_call = AttrVerb_call ConnectorAPI_put"

definition AttrDeleteMethod_call :: "server \<Rightarrow> addr \<Rightarrow> arg list \<Rightarrow> (string \<times> pyval) list \<Rightarrow> res py" where
  "AttrDeleteMethod_call = AttrVerb_call ConnectorAPI_delete"

section \<open>Evaluating a chain expression\<close>

text \<open>
  Ordinary attribute lookup comes first; Python calls \<^verbatim>\<open>__getattr__\<close> only for a name
  that it does not find.

  On a transport it finds the fields assigned by the \<^verbatim>\<open>__init__\<close> methods
  (\<^verbatim>\<open>conn\<close> on a \<^verbatim>\<open>Proxmox\<close> or \<^verbatim>\<open>Node\<close>, \<^verbatim>\<open>node\<close> on a \<^verbatim>\<open>Node\<close>) and the methods
  of the classes; on a chain object it finds \<^verbatim>\<open>parent\<close> and \<^verbatim>\<open>method_name\<close>.
\<close>

definition transport_attr :: "transport \<Rightarrow> string \<Rightarrow> res option" where
  "transport_attr t key =
     (if key = ''host'' then Some (Data (PStr (host t)))
      else if key = ''port'' then Some (Data (PInt (port t)))
      else if key = ''verify_ssl'' then Some (Data (PBool (verify_ssl t)))
      else if key = ''baseurl'' then Some (Data (PStr (baseurl t)))
      else if key = ''session'' then Some (Native key)
      else if key = ''_auth'' then
        Some (case auth t of None \<Rightarrow> Data PNone | Some tok \<Rightarrow> Native key)
      else if key \<in> set [''_request'', ''get'', ''post'', ''put'', ''delete''] then Some (Native key)
      else if key \<in> set [''get_auth_token'', ''use_api_token''] \<and> cls t = Connector
        then Some (Native key)
      else if key = ''conn'' then map_option Obj (conn t)
      else if key = ''node'' then map_option (\<lambda>nd. Data (PStr nd)) (node t)
      else None)"

definition chain_attr :: "attr \<Rightarrow> string \<Rightarrow> res option" where
  "chain_attr m key =
     (if key = ''parent'' then Some (Obj (parent m))
      else if key = ''method_name'' then Some (Data (PStr (method_name m)))
      else None)"

text \<open>
  A special name \<^verbatim>\<open>__x__\<close> (\<^verbatim>\<open>__class__\<close>, \<^verbatim>\<open>__dict__\<close>, \<^verbatim>\<open>__call__\<close>, ...) belongs to the
  object protocol of the interpreter; which of these names exist depends on its version.
\<close>

definition special :: "string \<Rightarrow> bool" where
  "special key \<longleftrightarrow>
     4 < length key \<and> take 2 key = ''__'' \<and> drop (length key - 2) key = ''__''"

definition found :: "(error + addr) \<times> world \<Rightarrow> (error + res) \<times> world" where
  "found r = (case r of (Inl e, w') \<Rightarrow> (Inl e, w') | (Inr a, w') \<Rightarrow> (Inr (Obj a), w'))"

text \<open>
  \<open>getattr_step x key\<close> is \<^verbatim>\<open>x.key\<close>: the ordinary attribute if there is one, else the
  \<^verbatim>\<open>__getattr__\<close> of the class of \<^verbatim>\<open>x\<close> (\<^verbatim>\<open>ConnectorAPI\<close> and \<^verbatim>\<open>Connector\<close> have none).
  \<open>call_step x args kwargs\<close> is \<^verbatim>\<open>x(*args, **kwargs)\<close>, with the \<^verbatim>\<open>__call__\<close> of the
  class of \<^verbatim>\<open>x\<close>; a transport is not callable.
\<close>

definition getattr_step :: "addr \<Rightarrow> string \<Rightarrow> res py" where
  "getattr_step x key w =
     (case deref w x of
        None \<Rightarrow> (Inl PyAttributeError, w)
      | Some ob \<Rightarrow>
          if special key then (Inr (Special key), w)
          else (case ob of
                  Transport t \<Rightarrow>
                    (case transport_attr t key of
                       Some r \<Rightarrow> (Inr r, w)
                     | None \<Rightarrow> found (Proxmox_getattr x key w))
                | Attr m \<Rightarrow>
                    (case chain_attr m key of
                       Some r \<Rightarrow> (Inr r, w)
                     | None \<Rightarrow> found (AttrMethod_getattr x key w))))"

definition call_step :: "server \<Rightarrow> addr \<Rightarrow> arg list \<Rightarrow> (string \<times> pyval) list \<Rightarrow> res py" where
  "call_step srv x args kwargs w =
     (case deref w x of
        Some (Attr m) \<Rightarrow>
          (case acls m of
             AttrMethod \<Rightarrow> AttrMethod_call srv x args kwargs w
           | AttrGetMethod \<Rightarrow> AttrGetMethod_call srv x args kwargs w
           | AttrPostMethod \<Rightarrow> AttrPostMethod_call srv x args kwargs w
           | AttrPutMethod \<Rightarrow> AttrPutMethod_call srv x args kwargs w
           | AttrDeleteMethod \<Rightarrow> AttrDeleteMethod_call srv x args kwargs w)
      | _ \<Rightarrow> (Inl PyTypeError, w))"

text \<open>Sequencing: an exception ends the evaluation.\<close>

definition and_then :: "'a py \<Rightarrow> ('a \<Rightarrow> 'b py) \<Rightarrow> 'b py" where
  "and_then m f w = (case m w of (Inl e, w') \<Rightarrow> (Inl e, w') | (Inr x, w') \<Rightarrow> f x w')"

text \<open>
  A step on the value of the previous one. A chain step needs an object; response data
  has none, and the two expressions below never meet another value: their names are
  neither special nor ordinary attributes, and each first call has a positional argument.
\<close>

fun on_obj :: "res \<Rightarrow> (addr \<Rightarrow> 'a py) \<Rightarrow> 'a py" where
  "on_obj (Obj a) f = f a"
| "on_obj r f = (\<lambda>w. (Inl PyAttributeError, w))"

text \<open>\<^verbatim>\<open>root.nodes("pve").qemu()\<close>.\<close>

definition chain_nodes_pve_qemu :: "server \<Rightarrow> addr \<Rightarrow> res py" where
  "chain_nodes_pve_qemu srv rt =
     and_then (getattr_step rt ''nodes'') (\<lambda>n.
     and_then (on_obj n (\<lambda>n. call_step srv n [ArgStr ''pve''] [])) (\<lambda>p.
     and_then (on_obj p (\<lambda>p. getattr_step p ''qemu'')) (\<lambda>q.
     on_obj q (\<lambda>q. call_step srv q [] []))))"

text \<open>\<^verbatim>\<open>a = root.nodes("a"); b = root.nodes("b")\<close>, returning both values.\<close>

definition two_branches :: "server \<Rightarrow> addr \<Rightarrow> (res \<times> res) py" where
  "two_branches srv rt =
     and_then (getattr_step rt ''nodes'') (\<lambda>n1.
     and_then (on_obj n1 (\<lambda>n1. call_step srv n1 [ArgStr ''a''] [])) (\<lambda>a.
     and_then (getattr_step rt ''nodes'') (\<lambda>n2.
     and_then (on_obj n2 (\<lambda>n2. call_step srv n2 [ArgStr ''b''] [])) (\<lambda>b.
     (\<lambda>w. (Inr (a, b), w))))))"

text \<open>Path segments: \<^verbatim>\<open>path.split("/")\<close>.\<close>

fun split_slash :: "string \<Rightarrow> string list" where
  "split_slash [] = [[]]"
| "split_slash (c # cs) =
     (if c = CHR ''/'' then [] # split_slash cs
      else (case split_slash cs of [] \<Rightarrow> [[c]] | s # ss \<Rightarrow> (c # s) # ss))"

text \<open>A connector for host \<^verbatim>\<open>pve.local\<close> with the default port, alone in the heap.\<close>

definition conn0 :: transport where
  "conn0 = ConnectorAPI_fields Connector ''pve.local'' 8006 True"

definition w0 :: world where
  "w0 = \<lparr>heap = [Transport conn0], wire = []\<rparr>"

text \<open>A generic root over that connector, at address 1.\<close>

definition root0 :: transport where
  "root0 = Proxmox_fields Proxmox 0 conn0"

definition w1 :: world where
  "w1 = \<lparr>heap = [Transport conn0, Transport root0], wire = []\<rparr>"

text \<open>The chain object \<^verbatim>\<open>root.nodes\<close> of that root, at address 2.\<close>

definition nodes0 :: attr where
  "nodes0 = \<lparr>acls = AttrMethod, parent = 1, method_name = ''nodes''\<rparr>"

definition w2 :: world where
  "w2 = \<lparr>heap = [Transport conn0, Transport root0, Attr nodes0], wire = []\<rparr>"

text \<open>Servers for the concrete runs: a fixed status, a fixed body, an unreachable host.\<close>

definition srv_status :: "int \<Rightarrow> server" where
  "srv_status s req = Response s (Some (PDict [(''data'', PInt 1)]))"

definition srv_body :: "pyval option \<Rightarrow> server" where
  "srv_body b req = Response 200 b"

definition srv_down :: server where
  "srv_down req = Raises RequestException"

section \<open>Token authentication\<close>

lemma deref_store_same:
  "a < length (heap w) \<Longrightarrow> deref (store a ob w) a = Some ob"
  by (simp add: deref_def store_def)

lemma deref_w0: "deref w0 0 = Some (Transport conn0)"
  by (simp add: deref_def w0_def)

lemma cls_conn0: "cls conn0 = Connector"
  by (simp add: conn0_def ConnectorAPI_fields_def)

text \<open>
  C3. With a username that contains \<^verbatim>\<open>@\<close>, \<^verbatim>\<open>use_api_token\<close> returns a token whose
  header is exactly \<^verbatim>\<open>PVEAPIToken={username}!{token_name}={token_value}\<close>, stores that
  token on the connector, and sends nothing.
\<close>

theorem use_api_token_header:
  assumes "deref w self = Some (Transport c)" and "cls c = Connector"
    and "CHR ''@'' \<in> set username"
  shows "\<exists>tok w'. use_api_token self username token_name token_value w = (Return tok, w')
           \<and> token_header tok
               = Some (''PVEAPIToken='' @ username @ ''!'' @ token_name @ ''='' @ token_value)
           \<and> ticket tok = None \<and> csrf tok = None
           \<and> deref w' self = Some (Transport (c\<lparr>auth := Some tok\<rparr>))
           \<and> wire w' = wire w"
proof -
  from assms(1) have "self < length (heap w)"
    by (auto simp: deref_def split: if_splits)
  then show ?thesis
    using assms by (simp add: use_api_token_def Let_def deref_store_same) (simp add: store_def)
qed

theorem use_api_token_header_witness:
  "\<exists>tok w'. use_api_token 0 ''api@pve'' ''demo'' ''abc123'' w0 = (Return tok, w')
     \<and> token_header tok = Some ''PVEAPIToken=api@pve!demo=abc123''
     \<and> deref w' 0 = Some (Transport (conn0\<lparr>auth := Some tok\<rparr>))
     \<and> wire w' = wire w0"
  using use_api_token_header [OF deref_w0 cls_conn0, of "''api@pve''" "''demo''" "''abc123''"]
  by auto

text \<open>
  C5. With a username that lacks \<^verbatim>\<open>@\<close>, \<^verbatim>\<open>use_api_token\<close> raises
  \<^verbatim>\<open>ProxmoxAuthError\<close> and the world is the one it started from: nothing was sent and
  the stored token is the old one.
\<close>

theorem use_api_token_no_realm:
  assumes "deref w self = Some (Transport c)" and "cls c = Connector"
    and "CHR ''@'' \<notin> set username"
  shows "use_api_token self username token_name token_value w = (Raise ProxmoxAuthError, w)"
  using assms by (simp add: use_api_token_def)

theorem use_api_token_no_realm_witness:
  "use_api_token 0 ''root'' ''demo'' ''abc123'' w0 = (Raise ProxmoxAuthError, w0)"
  using use_api_token_no_realm [OF deref_w0 cls_conn0, of "''root''" "''demo''" "''abc123''"]
  by simp

lemma deref_lt: "deref w a = Some ob \<Longrightarrow> a < length (heap w)"
  by (auto simp: deref_def split: if_splits)

lemma request_result:
  assumes "deref w self = Some (Transport t)"
  shows "ConnectorAPI_request srv self meth path prms w =
     ((case send srv (build_request t meth path prms) of
          Inl e \<Rightarrow> Inl (request_except e)
        | Inr (s, None) \<Rightarrow> Inl ProxmoxError
        | Inr (s, Some payload) \<Rightarrow> payload_get_data payload),
      w\<lparr>wire := wire w @ [build_request t meth path prms]\<rparr>)"
  using assms
  by (simp add: ConnectorAPI_request_def Let_def split: sum.splits prod.splits option.splits)

lemma verb_is_request:
  assumes "call \<in> {ConnectorAPI_get, ConnectorAPI_post, ConnectorAPI_put, ConnectorAPI_delete}"
  shows "\<exists>meth prms'. call srv self path prms = ConnectorAPI_request srv self meth path prms'"
proof -
  have "call = ConnectorAPI_get \<or> call = ConnectorAPI_post \<or> call = ConnectorAPI_put
      \<or> call = ConnectorAPI_delete"
    using assms by simp
  then show ?thesis
    by (elim disjE; simp add: ConnectorAPI_get_def ConnectorAPI_post_def ConnectorAPI_put_def
        ConnectorAPI_delete_def; blast)
qed

section \<open>Failures of a transport call\<close>

text \<open>
  C2, as the code has it. Each of \<^verbatim>\<open>get\<close>, \<^verbatim>\<open>post\<close>, \<^verbatim>\<open>put\<close>, \<^verbatim>\<open>delete\<close> sends one
  request. A reply with status 401 or 403 raises \<^verbatim>\<open>ProxmoxAuthError\<close>; any other
  status from 400 to 599 raises \<^verbatim>\<open>ProxmoxConnectionError\<close>; a network-level failure
  raises \<^verbatim>\<open>ProxmoxConnectionError\<close>; and a reply that passes the status check with a
  body that is not JSON raises \<^verbatim>\<open>ProxmoxError\<close>.
\<close>

theorem request_errors:
  assumes "deref w self = Some (Transport t)"
    and "call \<in> {ConnectorAPI_get, ConnectorAPI_post, ConnectorAPI_put, ConnectorAPI_delete}"
  shows "\<exists>req. snd (call srv self path prms w) = w\<lparr>wire := wire w @ [req]\<rparr>
     \<and> (\<forall>s body. srv req = Response s body \<and> (s = 401 \<or> s = 403)
           \<longrightarrow> fst (call srv self path prms w) = Inl ProxmoxAuthError)
     \<and> (\<forall>s body. srv req = Response s body \<and> 400 \<le> s \<and> s < 600 \<and> s \<noteq> 401 \<and> s \<noteq> 403
           \<longrightarrow> fst (call srv self path prms w) = Inl ProxmoxConnectionError)
     \<and> (srv req = Raises RequestException
           \<longrightarrow> fst (call srv self path prms w) = Inl ProxmoxConnectionError)
     \<and> (\<forall>s. srv req = Response s None \<and> \<not> (400 \<le> s \<and> s < 600)
           \<longrightarrow> fst (call srv self path prms w) = Inl ProxmoxError)"
proof -
  from verb_is_request [OF assms(2)] obtain meth prms'
    where c: "call srv self path prms = ConnectorAPI_request srv self meth path prms'"
    by blast
  let ?req = "build_request t meth path prms'"
  have r: "call srv self path prms w =
     ((case send srv ?req of
          Inl e \<Rightarrow> Inl (request_except e)
        | Inr (s, None) \<Rightarrow> Inl ProxmoxError
        | Inr (s, Some payload) \<Rightarrow> payload_get_data payload),
      w\<lparr>wire := wire w @ [?req]\<rparr>)"
    using request_result [OF assms(1)] c by simp
  show ?thesis
    by (rule exI [of _ ?req]) (auto simp: r send_def raise_for_status_def)
qed

theorem request_errors_witness:
  "fst (ConnectorAPI_get (srv_status 403) 0 ''version'' None w0) = Inl ProxmoxAuthError
   \<and> fst (ConnectorAPI_post (srv_status 404) 0 ''version'' None w0) = Inl ProxmoxConnectionError
   \<and> fst (ConnectorAPI_put srv_down 0 ''version'' None w0) = Inl ProxmoxConnectionError
   \<and> fst (ConnectorAPI_delete (srv_body None) 0 ''version'' None w0) = Inl ProxmoxError"
  using request_errors [OF deref_w0, of ConnectorAPI_get "srv_status 403" "''version''" None]
    request_errors [OF deref_w0, of ConnectorAPI_post "srv_status 404" "''version''" None]
    request_errors [OF deref_w0, of ConnectorAPI_put srv_down "''version''" None]
    request_errors [OF deref_w0, of ConnectorAPI_delete "srv_body None" "''version''" None]
  by (simp add: srv_status_def srv_down_def srv_body_def)

text \<open>
  C2 as stated fails above 599: status 600 is at least 400 and is neither 401 nor 403,
  yet \<^verbatim>\<open>raise_for_status\<close> lets it pass and the call returns the data.
\<close>

theorem request_status_600_counterexample:
  "fst (ConnectorAPI_get (srv_status 600) 0 ''version'' None w0) = Inr (PInt 1)
   \<and> fst (ConnectorAPI_get (srv_status 600) 0 ''version'' None w0) \<noteq> Inl ProxmoxConnectionError"
  by (simp add: ConnectorAPI_get_def request_result [OF deref_w0] send_def srv_status_def
      raise_for_status_def)

section \<open>The response envelope\<close>

text \<open>
  C6. When the reply passes the status check and its body is a JSON object, the call
  returns \<^verbatim>\<open>None\<close> if the object has no \<^verbatim>\<open>data\<close> key, and the value under
  \<^verbatim>\<open>data\<close> if it has one; no exception is raised.
\<close>

theorem data_envelope:
  assumes "deref w self = Some (Transport t)"
    and "call \<in> {ConnectorAPI_get, ConnectorAPI_post, ConnectorAPI_put, ConnectorAPI_delete}"
  shows "\<exists>req. snd (call srv self path prms w) = w\<lparr>wire := wire w @ [req]\<rparr>
     \<and> (\<forall>s d. srv req = Response s (Some (PDict d)) \<and> \<not> raise_for_status s
                 \<and> map_of d ''data'' = None
           \<longrightarrow> fst (call srv self path prms w) = Inr PNone)
     \<and> (\<forall>s d v. srv req = Response s (Some (PDict d)) \<and> \<not> raise_for_status s
                 \<and> map_of d ''data'' = Some v
           \<longrightarrow> fst (call srv self path prms w) = Inr v)"
proof -
  from verb_is_request [OF assms(2)] obtain meth prms'
    where c: "call srv self path prms = ConnectorAPI_request srv self meth path prms'"
    by blast
  let ?req = "build_request t meth path prms'"
  have r: "call srv self path prms w =
     ((case send srv ?req of
          Inl e \<Rightarrow> Inl (request_except e)
        | Inr (s, None) \<Rightarrow> Inl ProxmoxError
        | Inr (s, Some payload) \<Rightarrow> payload_get_data payload),
      w\<lparr>wire := wire w @ [?req]\<rparr>)"
    using request_result [OF assms(1)] c by simp
  show ?thesis
    by (rule exI [of _ ?req]) (auto simp: r send_def)
qed

theorem data_envelope_witness:
  "fst (ConnectorAPI_get (srv_body (Some (PDict [(''status'', PStr ''ok'')]))) 0 ''version'' None w0)
     = Inr PNone
   \<and> fst (ConnectorAPI_post (srv_body (Some (PDict [(''data'', PList [PInt 7])]))) 0 ''x'' None w0)
     = Inr (PList [PInt 7])"
  using data_envelope [OF deref_w0, of ConnectorAPI_get
        "srv_body (Some (PDict [(''status'', PStr ''ok'')]))" "''version''" None]
    data_envelope [OF deref_w0, of ConnectorAPI_post
        "srv_body (Some (PDict [(''data'', PList [PInt 7])]))" "''x''" None]
  by (simp add: srv_body_def raise_for_status_def)

lemma Proxmox_getattr_root:
  assumes "deref w self = Some (Transport t)" and "cls t = Proxmox \<or> cls t = Node"
  shows "Proxmox_getattr self key w =
     (Inr (length (heap w)),
      w\<lparr>heap := heap w @ [Attr \<lparr>acls = AttrMethod, parent = self, method_name = key\<rparr>]\<rparr>)"
  using assms by (auto simp: Proxmox_getattr_def new_attr_def alloc_def)

lemma AttrMethod_call_args:
  assumes "deref w self = Some (Attr m)" and "args \<noteq> []"
  shows "AttrMethod_call srv self args kwargs w =
     (Inr (Obj (length (heap w))),
      w\<lparr>heap := heap w @ [Attr \<lparr>acls = AttrMethod, parent = parent m,
            method_name = join ''/'' (method_name m # map (\<lambda>a. quote (str a)) args)\<rparr>]\<rparr>)"
  using assms by (simp add: AttrMethod_call_def new_attr_def alloc_def)

lemma AttrMethod_call_bare:
  assumes "deref w self = Some (Attr m)"
  shows "AttrMethod_call srv self [] kwargs w =
     fetched (ConnectorAPI_get srv (parent m) (method_name m) (or_None kwargs) w)"
  using assms by (simp add: AttrMethod_call_def)

lemma AttrMethod_getattr_segment:
  assumes "deref w self = Some (Attr m)"
    and "quote key \<notin> {''post'', ''put'', ''delete'', ''get''}"
  shows "AttrMethod_getattr self key w =
     (Inr (length (heap w)),
      w\<lparr>heap := heap w @ [Attr \<lparr>acls = AttrMethod, parent = parent m,
            method_name = method_name m @ ''/'' @ quote key\<rparr>]\<rparr>)"
  using assms by (simp add: AttrMethod_getattr_def new_attr_def alloc_def Let_def)

lemma AttrMethod_getattr_fresh:
  assumes "deref w self = Some (Attr m)"
  shows "\<exists>ob. AttrMethod_getattr self key w =
     (Inr (length (heap w)), w\<lparr>heap := heap w @ [Attr ob]\<rparr>) \<and> parent ob = parent m"
  using assms by (auto simp: AttrMethod_getattr_def new_attr_def alloc_def Let_def)

lemma call_step_plain:
  assumes "deref w x = Some (Attr m)" and "acls m = AttrMethod"
  shows "call_step srv x args kwargs w = AttrMethod_call srv x args kwargs w"
  using assms by (simp add: call_step_def)

lemma getattr_step_root:
  assumes "deref w x = Some (Transport t)" and "\<not> special key" and "transport_attr t key = None"
  shows "getattr_step x key w = found (Proxmox_getattr x key w)"
  using assms by (simp add: getattr_step_def)

lemma getattr_step_attr:
  assumes "deref w x = Some (Attr m)" and "\<not> special key" and "chain_attr m key = None"
  shows "getattr_step x key w = found (AttrMethod_getattr x key w)"
  using assms by (simp add: getattr_step_def)

lemma nodes_not_ordinary:
  "\<not> special ''nodes''" "transport_attr t ''nodes'' = None" "chain_attr m ''nodes'' = None"
  by (simp_all add: special_def transport_attr_def chain_attr_def)

lemma qemu_not_ordinary:
  "\<not> special ''qemu''" "transport_attr t ''qemu'' = None" "chain_attr m ''qemu'' = None"
  by (simp_all add: special_def transport_attr_def chain_attr_def)

lemma quote_pve: "quote ''pve'' = ''pve''"
  by (simp add: quote_def quote_char_def always_safe_def)

lemma quote_qemu: "quote ''qemu'' = ''qemu''"
  by (simp add: quote_def quote_char_def always_safe_def)

section \<open>The chain \<^verbatim>\<open>root.nodes("pve").qemu()\<close>\<close>

text \<open>
  C1. On every root (a \<^verbatim>\<open>Proxmox\<close> or \<^verbatim>\<open>Node\<close> object), evaluating
  \<^verbatim>\<open>root.nodes("pve").qemu()\<close> puts exactly one request on the wire: a GET whose URL is
  the base URL followed by \<^verbatim>\<open>/nodes/pve/qemu\<close>, with no query parameters and no body.
\<close>

theorem chain_nodes_pve_qemu_request:
  assumes "deref w rt = Some (Transport t)" and "cls t = Proxmox \<or> cls t = Node"
  shows "\<exists>req. wire (snd (chain_nodes_pve_qemu srv rt w)) = wire w @ [req]
           \<and> req = build_request t ''GET'' ''nodes/pve/qemu'' None
           \<and> http_method req = ''GET''
           \<and> url req = baseurl t @ ''/nodes/pve/qemu''
           \<and> params req = None \<and> data req = None"
proof -
  let ?n = "length (heap w)"
  let ?o1 = "Attr \<lparr>acls = AttrMethod, parent = rt, method_name = ''nodes''\<rparr>"
  let ?o2 = "Attr \<lparr>acls = AttrMethod, parent = rt, method_name = ''nodes/pve''\<rparr>"
  let ?o3 = "Attr \<lparr>acls = AttrMethod, parent = rt, method_name = ''nodes/pve/qemu''\<rparr>"
  let ?w1 = "w\<lparr>heap := heap w @ [?o1]\<rparr>"
  let ?w2 = "w\<lparr>heap := heap w @ [?o1, ?o2]\<rparr>"
  let ?w3 = "w\<lparr>heap := heap w @ [?o1, ?o2, ?o3]\<rparr>"
  have s1: "getattr_step rt ''nodes'' w = (Inr (Obj ?n), ?w1)"
    using assms
    by (simp add: getattr_step_root nodes_not_ordinary Proxmox_getattr_root found_def)
  have d1: "deref ?w1 ?n = Some ?o1"
    by (simp add: deref_def)
  have s2: "call_step srv ?n [ArgStr ''pve''] [] ?w1 = (Inr (Obj (Suc ?n)), ?w2)"
    using call_step_plain [OF d1] AttrMethod_call_args [OF d1, of "[ArgStr ''pve'']"]
    by (simp add: quote_pve)
  have d2: "deref ?w2 (Suc ?n) = Some ?o2"
    by (simp add: deref_def nth_append)
  have s3: "getattr_step (Suc ?n) ''qemu'' ?w2 = (Inr (Obj (Suc (Suc ?n))), ?w3)"
    using getattr_step_attr [OF d2 qemu_not_ordinary(1) qemu_not_ordinary(3)]
      AttrMethod_getattr_segment [OF d2, of "''qemu''"]
    by (simp add: quote_qemu found_def)
  have d3: "deref ?w3 (Suc (Suc ?n)) = Some ?o3"
    by (simp add: deref_def nth_append)
  have dr: "deref ?w3 rt = Some (Transport t)"
    using assms(1) by (auto simp: deref_def nth_append split: if_splits)
  have s4: "call_step srv (Suc (Suc ?n)) [] [] ?w3 =
      fetched (ConnectorAPI_get srv rt ''nodes/pve/qemu'' None ?w3)"
    using call_step_plain [OF d3] AttrMethod_call_bare [OF d3]
    by (simp add: or_None_def)
  have "chain_nodes_pve_qemu srv rt w = fetched (ConnectorAPI_get srv rt ''nodes/pve/qemu'' None ?w3)"
    by (simp add: chain_nodes_pve_qemu_def and_then_def s1 s2 s3 s4)
  moreover have "wire (snd (fetched (ConnectorAPI_get srv rt ''nodes/pve/qemu'' None ?w3)))
      = wire w @ [build_request t ''GET'' ''nodes/pve/qemu'' None]"
    by (simp add: ConnectorAPI_get_def request_result [OF dr] fetched_def split: sum.splits)
  ultimately show ?thesis
    by (simp add: build_request_def)
qed

lemma deref_w1: "deref w1 1 = Some (Transport root0)"
  by (simp add: deref_def w1_def)

lemma cls_root0: "cls root0 = Proxmox \<or> cls root0 = Node"
  by (simp add: root0_def Proxmox_fields_def ConnectorAPI_fields_def)

theorem chain_nodes_pve_qemu_request_witness:
  "\<exists>req. wire (snd (chain_nodes_pve_qemu (srv_status 200) 1 w1)) = [req]
      \<and> http_method req = ''GET''
      \<and> url req = baseurl root0 @ ''/nodes/pve/qemu''
      \<and> params req = None \<and> data req = None"
  using chain_nodes_pve_qemu_request [OF deref_w1 cls_root0, of "srv_status 200"]
  by (simp add: w1_def)


lemma call_step_args:
  assumes "deref w self = Some (Attr m)" and "acls m = AttrMethod" and "args \<noteq> []"
  shows "call_step srv self args kwargs w =
     (Inr (Obj (length (heap w))),
      w\<lparr>heap := heap w @ [Attr \<lparr>acls = AttrMethod, parent = parent m,
            method_name = join ''/'' (method_name m # map (\<lambda>a. quote (str a)) args)\<rparr>]\<rparr>)"
  using assms by (simp add: call_step_plain AttrMethod_call_args)

lemma quote_a: "quote ''a'' = ''a''"
  by (simp add: quote_def quote_char_def always_safe_def)

lemma quote_b: "quote ''b'' = ''b''"
  by (simp add: quote_def quote_char_def always_safe_def)

lemma two_branches_result:
  assumes "deref w rt = Some (Transport t)" and "cls t = Proxmox \<or> cls t = Node"
  shows "two_branches srv rt w =
     (Inr (Obj (length (heap w) + 1), Obj (length (heap w) + 3)),
      w\<lparr>heap := heap w @
          [Attr \<lparr>acls = AttrMethod, parent = rt, method_name = ''nodes''\<rparr>,
           Attr \<lparr>acls = AttrMethod, parent = rt, method_name = ''nodes/a''\<rparr>,
           Attr \<lparr>acls = AttrMethod, parent = rt, method_name = ''nodes''\<rparr>,
           Attr \<lparr>acls = AttrMethod, parent = rt, method_name = ''nodes/b''\<rparr>]\<rparr>)"
proof -
  let ?n = "length (heap w)"
  let ?o1 = "Attr \<lparr>acls = AttrMethod, parent = rt, method_name = ''nodes''\<rparr>"
  let ?oa = "Attr \<lparr>acls = AttrMethod, parent = rt, method_name = ''nodes/a''\<rparr>"
  let ?ob = "Attr \<lparr>acls = AttrMethod, parent = rt, method_name = ''nodes/b''\<rparr>"
  let ?w1 = "w\<lparr>heap := heap w @ [?o1]\<rparr>"
  let ?w2 = "w\<lparr>heap := heap w @ [?o1, ?oa]\<rparr>"
  let ?w3 = "w\<lparr>heap := heap w @ [?o1, ?oa, ?o1]\<rparr>"
  let ?w4 = "w\<lparr>heap := heap w @ [?o1, ?oa, ?o1, ?ob]\<rparr>"
  have s1: "getattr_step rt ''nodes'' w = (Inr (Obj ?n), ?w1)"
    using assms
    by (simp add: getattr_step_root nodes_not_ordinary Proxmox_getattr_root found_def)
  have d1: "deref ?w1 ?n = Some ?o1"
    by (simp add: deref_def)
  have s2: "call_step srv ?n [ArgStr ''a''] [] ?w1 = (Inr (Obj (Suc ?n)), ?w2)"
    using call_step_args [OF d1, of "[ArgStr ''a'']"] by (simp add: quote_a)
  have dr: "deref ?w2 rt = Some (Transport t)"
    using assms(1) by (auto simp: deref_def nth_append split: if_splits)
  have s3: "getattr_step rt ''nodes'' ?w2 = (Inr (Obj (Suc (Suc ?n))), ?w3)"
    using assms(2)
    by (simp add: getattr_step_root [OF dr] nodes_not_ordinary Proxmox_getattr_root [OF dr]
        found_def)
  have d3: "deref ?w3 (Suc (Suc ?n)) = Some ?o1"
    by (simp add: deref_def nth_append)
  have s4: "call_step srv (Suc (Suc ?n)) [ArgStr ''b''] [] ?w3 = (Inr (Obj (Suc (Suc (Suc ?n)))), ?w4)"
    using call_step_args [OF d3, of "[ArgStr ''b'']"] by (simp add: quote_b)
  show ?thesis
    by (simp add: two_branches_def and_then_def s1 s2 s3 s4)
qed

section \<open>Chain values are never mutated\<close>

text \<open>
  C7. An attribute step on the root, an attribute step or verb selection on a chain
  object, and a call with positional arguments each return the address of a new object
  and change the world only by appending that object: every object that existed before is
  as it was. In particular, branching a root twice, \<^verbatim>\<open>root.nodes("a")\<close> and
  \<^verbatim>\<open>root.nodes("b")\<close>, gives two distinct objects with paths \<^verbatim>\<open>nodes/a\<close> and
  \<^verbatim>\<open>nodes/b\<close>, the root and all earlier objects unchanged, and nothing sent.
\<close>

theorem transitions_fresh:
  "(deref w self = Some (Transport t) \<and> (cls t = Proxmox \<or> cls t = Node)
      \<longrightarrow> (\<exists>ob. Proxmox_getattr self key w
                  = (Inr (length (heap w)), w\<lparr>heap := heap w @ [ob]\<rparr>)))
   \<and> (deref w self = Some (Attr m)
      \<longrightarrow> (\<exists>ob. AttrMethod_getattr self key w
                  = (Inr (length (heap w)), w\<lparr>heap := heap w @ [ob]\<rparr>)))
   \<and> (deref w self = Some (Attr m) \<and> acls m = AttrMethod \<and> args \<noteq> []
      \<longrightarrow> (\<exists>ob. call_step srv self args kwargs w
                  = (Inr (Obj (length (heap w))), w\<lparr>heap := heap w @ [ob]\<rparr>)))
   \<and> (deref w self = Some (Transport t) \<and> (cls t = Proxmox \<or> cls t = Node)
      \<longrightarrow> (\<exists>w'. two_branches srv self w
                    = (Inr (Obj (length (heap w) + 1), Obj (length (heap w) + 3)), w')
             \<and> deref w' (length (heap w) + 1)
                 = Some (Attr \<lparr>acls = AttrMethod, parent = self, method_name = ''nodes/a''\<rparr>)
             \<and> deref w' (length (heap w) + 3)
                 = Some (Attr \<lparr>acls = AttrMethod, parent = self, method_name = ''nodes/b''\<rparr>)
             \<and> deref w' self = Some (Transport t)
             \<and> take (length (heap w)) (heap w') = heap w
             \<and> wire w' = wire w))"
proof (intro conjI impI)
  assume "deref w self = Some (Transport t) \<and> (cls t = Proxmox \<or> cls t = Node)"
  then show "\<exists>ob. Proxmox_getattr self key w
      = (Inr (length (heap w)), w\<lparr>heap := heap w @ [ob]\<rparr>)"
    by (auto simp: Proxmox_getattr_root)
next
  assume "deref w self = Some (Attr m)"
  from AttrMethod_getattr_fresh [OF this, of key]
  show "\<exists>ob. AttrMethod_getattr self key w
      = (Inr (length (heap w)), w\<lparr>heap := heap w @ [ob]\<rparr>)"
    by blast
next
  assume "deref w self = Some (Attr m) \<and> acls m = AttrMethod \<and> args \<noteq> []"
  then show "\<exists>ob. call_step srv self args kwargs w
      = (Inr (Obj (length (heap w))), w\<lparr>heap := heap w @ [ob]\<rparr>)"
    by (auto simp: call_step_args)
next
  assume a: "deref w self = Some (Transport t) \<and> (cls t = Proxmox \<or> cls t = Node)"
  then have r: "self < length (heap w)" "heap w ! self = Transport t"
    by (auto simp: deref_def split: if_splits)
  from a have tb: "two_branches srv self w =
     (Inr (Obj (length (heap w) + 1), Obj (length (heap w) + 3)),
      w\<lparr>heap := heap w @
          [Attr \<lparr>acls = AttrMethod, parent = self, method_name = ''nodes''\<rparr>,
           Attr \<lparr>acls = AttrMethod, parent = self, method_name = ''nodes/a''\<rparr>,
           Attr \<lparr>acls = AttrMethod, parent = self, method_name = ''nodes''\<rparr>,
           Attr \<lparr>acls = AttrMethod, parent = self, method_name = ''nodes/b''\<rparr>]\<rparr>)"
    by (simp add: two_branches_result)
  show "\<exists>w'. two_branches srv self w
            = (Inr (Obj (length (heap w) + 1), Obj (length (heap w) + 3)), w')
        \<and> deref w' (length (heap w) + 1)
            = Some (Attr \<lparr>acls = AttrMethod, parent = self, method_name = ''nodes/a''\<rparr>)
        \<and> deref w' (length (heap w) + 3)
            = Some (Attr \<lparr>acls = AttrMethod, parent = self, method_name = ''nodes/b''\<rparr>)
        \<and> deref w' self = Some (Transport t)
        \<and> take (length (heap w)) (heap w') = heap w
        \<and> wire w' = wire w"
    using r by (simp add: tb deref_def nth_append)
qed

theorem transitions_fresh_witness:
  "\<exists>w'. two_branches (srv_status 200) 1 w1 = (Inr (Obj 3, Obj 5), w')
      \<and> deref w' 3 = Some (Attr \<lparr>acls = AttrMethod, parent = 1, method_name = ''nodes/a''\<rparr>)
      \<and> deref w' 5 = Some (Attr \<lparr>acls = AttrMethod, parent = 1, method_name = ''nodes/b''\<rparr>)
      \<and> deref w' 1 = Some (Transport root0)
      \<and> take 2 (heap w') = heap w1
      \<and> wire w' = wire w1"
proof -
  have n: "length (heap w1) + 1 = 3" "length (heap w1) + 3 = 5" "length (heap w1) = 2"
    by (simp_all add: w1_def)
  have "deref w1 1 = Some (Transport root0) \<and> (cls root0 = Proxmox \<or> cls root0 = Node)"
    using deref_w1 cls_root0 by simp
  with transitions_fresh [of w1 1 root0 "''nodes''"
      "\<lparr>acls = AttrMethod, parent = 1, method_name = ''nodes''\<rparr>" "[ArgStr ''a'']"
      "srv_status 200" "[]"]
  show ?thesis
    unfolding n(1,2) unfolding n(3) by blast
qed

section \<open>Positional and keyword arguments together\<close>

text \<open>
  C9. Calling a Building-state value (class \<^verbatim>\<open>AttrMethod\<close>) with at least one positional
  argument and at least one keyword argument raises nothing: it returns a new chain object
  whose path is extended by the positional arguments, exactly as without the keyword
  arguments, and sends no request.
\<close>

theorem call_mixed_arguments:
  assumes "deref w self = Some (Attr m)" and "acls m = AttrMethod"
    and "args \<noteq> []" and "kwargs \<noteq> []"
  shows "call_step srv self args kwargs w =
       (Inr (Obj (length (heap w))),
        w\<lparr>heap := heap w @ [Attr \<lparr>acls = AttrMethod, parent = parent m,
              method_name = join ''/'' (method_name m # map (\<lambda>a. quote (str a)) args)\<rparr>]\<rparr>)
     \<and> call_step srv self args kwargs w = call_step srv self args [] w
     \<and> wire (snd (call_step srv self args kwargs w)) = wire w"
  using assms by (simp add: call_step_args)

lemma deref_w2: "deref w2 2 = Some (Attr nodes0)"
  by (simp add: deref_def w2_def)

lemma acls_nodes0: "acls nodes0 = AttrMethod"
  by (simp add: nodes0_def)

lemma quote_100: "quote (str_int 100) = ''100''"
  by (simp add: str_int_def digit_char_def quote_def quote_char_def always_safe_def)

theorem call_mixed_arguments_witness:
  "call_step srv_down 2 [ArgInt 100] [(''full'', PInt 1)] w2 =
     (Inr (Obj 3),
      w2\<lparr>heap := heap w2 @ [Attr \<lparr>acls = AttrMethod, parent = 1, method_name = ''nodes/100''\<rparr>]\<rparr>)
   \<and> wire (snd (call_step srv_down 2 [ArgInt 100] [(''full'', PInt 1)] w2)) = []"
proof -
  have n: "length (heap w2) = 3" "parent nodes0 = 1" "method_name nodes0 = ''nodes''" "wire w2 = []"
    by (simp_all add: w2_def nodes0_def)
  from call_mixed_arguments [OF deref_w2 acls_nodes0, of "[ArgInt 100]" "[(''full'', PInt 1)]" srv_down]
  show ?thesis
    by (simp add: n quote_100)
qed

lemma split_slash_nonempty: "split_slash s \<noteq> []"
  by (induction s) (auto split: list.splits)

lemma split_slash_append:
  "split_slash (xs @ CHR ''/'' # ys) = split_slash xs @ split_slash ys"
proof (induction xs)
  case Nil
  then show ?case by simp
next
  case (Cons c cs)
  then show ?case
    using split_slash_nonempty [of cs]
    by (cases "split_slash cs") auto
qed

lemma quote_a_slash_b: "quote (str (ArgStr ''a/b'')) = ''a/b''"
  by (simp add: quote_def quote_char_def always_safe_def)

section \<open>A slash inside a positional argument\<close>

text \<open>
  C10. \<^verbatim>\<open>quote\<close> keeps \<^verbatim>\<open>/\<close>: calling a Building-state value with the single argument
  \<^verbatim>\<open>"a/b"\<close> extends the path by \<^verbatim>\<open>/a/b\<close>, which is two further segments \<^verbatim>\<open>a\<close> and
  \<^verbatim>\<open>b\<close>, and not by the one percent-encoded segment \<^verbatim>\<open>a%2Fb\<close>.
\<close>

theorem slash_argument_two_segments:
  assumes "deref w self = Some (Attr m)" and "acls m = AttrMethod"
  shows "call_step srv self [ArgStr ''a/b''] [] w =
       (Inr (Obj (length (heap w))),
        w\<lparr>heap := heap w @ [Attr \<lparr>acls = AttrMethod, parent = parent m,
              method_name = method_name m @ ''/a/b''\<rparr>]\<rparr>)
     \<and> split_slash (method_name m @ ''/a/b'') = split_slash (method_name m) @ [''a'', ''b'']
     \<and> method_name m @ ''/a/b'' \<noteq> method_name m @ ''/a%2Fb''"
proof -
  have "split_slash (method_name m @ CHR ''/'' # ''a/b'') = split_slash (method_name m) @ split_slash ''a/b''"
    by (rule split_slash_append)
  then have "split_slash (method_name m @ ''/a/b'') = split_slash (method_name m) @ [''a'', ''b'']"
    by simp
  moreover have "call_step srv self [ArgStr ''a/b''] [] w =
       (Inr (Obj (length (heap w))),
        w\<lparr>heap := heap w @ [Attr \<lparr>acls = AttrMethod, parent = parent m,
              method_name = method_name m @ ''/a/b''\<rparr>]\<rparr>)"
    using call_step_args [OF assms, of "[ArgStr ''a/b'']"] quote_a_slash_b by simp
  ultimately show ?thesis by simp
qed

theorem slash_argument_two_segments_witness:
  "call_step srv_down 2 [ArgStr ''a/b''] [] w2 =
       (Inr (Obj 3),
        w2\<lparr>heap := heap w2 @ [Attr \<lparr>acls = AttrMethod, parent = 1, method_name = ''nodes/a/b''\<rparr>]\<rparr>)
   \<and> split_slash ''nodes/a/b'' = [''nodes'', ''a'', ''b'']"
proof -
  have n: "length (heap w2) = 3" "parent nodes0 = 1" "method_name nodes0 = ''nodes''"
    by (simp_all add: w2_def nodes0_def)
  from slash_argument_two_segments [OF deref_w2 acls_nodes0, of srv_down]
  show ?thesis
    by (simp add: n)
qed












section \<open>\<^verbatim>\<open>Node\<close>\<close>









lemma raise_for_status_iff: "raise_for_status s \<longleftrightarrow> 400 \<le> s \<and> s < 600"
  by (auto simp: raise_for_status_def)

section \<open>Ticket authentication\<close>

text \<open>
  C4, as the code has it. \<^verbatim>\<open>get_auth_token\<close> sends one POST to \<^verbatim>\<open>access/ticket\<close>, and
  every reply with an error status, 401 and 500 alike (any status from 400 to 599), raises
  \<^verbatim>\<open>ProxmoxAuthError\<close>.
\<close>

theorem get_auth_token_http_error:
  assumes "deref w self = Some (Transport c)" and "cls c = Connector"
  shows "\<exists>req. wire (snd (get_auth_token srv self username password w)) = wire w @ [req]
      \<and> http_method req = ''POST'' \<and> url req = baseurl c @ ''/access/ticket''
      \<and> (\<forall>s body. srv req = Response s body \<and> 400 \<le> s \<and> s < 600 \<longrightarrow>
            get_auth_token srv self username password w
              = (Raise ProxmoxAuthError, w\<lparr>wire := wire w @ [req]\<rparr>))"
proof -
  let ?req = "\<lparr>http_method = ''POST'', url = baseurl c @ ''/access/ticket'', params = None,
      data = Some [(''username'', PStr username), (''password'', PStr password)],
      headers = None, verify = verify_ssl c, timeout = 30\<rparr>"
  have w: "wire (snd (get_auth_token srv self username password w)) = wire w @ [?req]"
    using assms
    by (simp add: get_auth_token_def Let_def store_def
        split: sum.splits exc.splits prod.splits option.splits outcome.splits)
  have e: "get_auth_token srv self username password w
      = (Raise ProxmoxAuthError, w\<lparr>wire := wire w @ [?req]\<rparr>)"
    if "srv ?req = Response s body" and "400 \<le> s" and "s < 600" for s body
    using assms that by (simp add: get_auth_token_def Let_def send_def raise_for_status_iff)
  show ?thesis
    by (rule exI [of _ ?req]) (use w e in auto)
qed

theorem get_auth_token_http_error_witness:
  "fst (get_auth_token (srv_status 401) 0 ''root@pam'' ''secret'' w0) = Raise ProxmoxAuthError
   \<and> fst (get_auth_token (srv_status 500) 0 ''root@pam'' ''secret'' w0) = Raise ProxmoxAuthError"
  using get_auth_token_http_error [OF deref_w0 cls_conn0, of "srv_status 401" "''root@pam''" "''secret''"]
    get_auth_token_http_error [OF deref_w0 cls_conn0, of "srv_status 500" "''root@pam''" "''secret''"]
  by (auto simp: srv_status_def)

text \<open>
  C4 as stated fails: a reply with status 500 raises \<^verbatim>\<open>ProxmoxAuthError\<close>, not
  \<^verbatim>\<open>ProxmoxConnectionError\<close>; and a reply with status 200 whose body is not JSON lets
  the \<^verbatim>\<open>ValueError\<close> of \<^verbatim>\<open>response.json()\<close> escape, not a \<^verbatim>\<open>ProxmoxError\<close>.
\<close>

theorem get_auth_token_500_counterexample:
  "fst (get_auth_token (srv_status 500) 0 ''root@pam'' ''secret'' w0) = Raise ProxmoxAuthError
   \<and> fst (get_auth_token (srv_status 500) 0 ''root@pam'' ''secret'' w0) \<noteq> Raise ProxmoxConnectionError
   \<and> fst (get_auth_token (srv_body None) 0 ''root@pam'' ''secret'' w0) = Raise PyValueError
   \<and> fst (get_auth_token (srv_body None) 0 ''root@pam'' ''secret'' w0) \<noteq> Raise ProxmoxError"
  by (simp add: get_auth_token_def deref_w0 cls_conn0 Let_def send_def raise_for_status_def
      srv_status_def srv_body_def)

end
